theory Spec2Isabelle
  imports Complex_Main "HOL-Library.Word"
begin

section \<open>Vision Insight Lab: a shallow embedding of app.py\<close>

text \<open>
  The script uploads an image, composes a prompt from a mode, a language and an optional
  context, sends both to a chat-completions endpoint in streaming mode and renders the
  reply as it arrives. The embedding below follows \<^verbatim>\<open>src/app.py\<close> line by line for the
  parts with behaviour of their own: the credential precedence of the sidebar, the prompt
  composition, the image encoder, the streaming analyzer and the main block.
\<close>

subsection \<open>Python values\<close>

text \<open>
  A Python \<^verbatim>\<open>str\<close> is a sequence of Unicode code points, a \<^verbatim>\<open>bytes\<close> a sequence of
  octets. Literals of the source that leave ASCII are written with their code points
  (for instance 243 for o-acute, 9612 for the block used as stream marker).
\<close>

type_synonym str = "nat list"
type_synonym byte = "8 word"
type_synonym bytes = "byte list"

definition ascii :: "string \<Rightarrow> str" where
  "ascii s = map of_char s"

text \<open>Truthiness of a string and of an optional string (\<^verbatim>\<open>None\<close> and \<^verbatim>\<open>""\<close> are falsy).\<close>

definition truthy :: "str \<Rightarrow> bool" where
  "truthy s = (s \<noteq> [])"

definition truthy_opt :: "str option \<Rightarrow> bool" where
  "truthy_opt v = (case v of None \<Rightarrow> False | Some s \<Rightarrow> truthy s)"

text \<open>
  Exceptions, all subclasses of \<^verbatim>\<open>Exception\<close>. \<open>KeyError\<close> carries the missing key,
  \<open>UnicodeDecodeError\<close> the bytes that do not decode, the others their message.
  \<open>Exception\<close> stands for whatever the API client raises (authentication rejection,
  network loss, malformed payload), with the text \<^verbatim>\<open>str(e)\<close>.
  \<open>SecretNotFoundError\<close> is what \<^verbatim>\<open>st.secrets\<close> raises on any access when there is no
  secrets file, \<open>UnidentifiedImageError\<close> what \<^verbatim>\<open>st.image\<close> raises on bytes that are
  not a picture.
\<close>

datatype exn =
    KeyError str
  | AttributeError str
  | IndexError str
  | UnicodeDecodeError bytes
  | Exception str
  | SecretNotFoundError
  | UnidentifiedImageError

text \<open>
  \<^verbatim>\<open>str(e)\<close>, as the f-string of line 160 formats it: the message where the exception
  carries one; the text of a \<open>KeyError\<close> (the \<^verbatim>\<open>repr\<close> of the key), of a
  \<open>UnicodeDecodeError\<close> and of the two library errors is composed by the interpreter and
  the libraries, which is the parameter \<open>fmt\<close>.
\<close>

fun exn_text :: "(exn \<Rightarrow> str) \<Rightarrow> exn \<Rightarrow> str" where
  "exn_text fmt (KeyError k) = fmt (KeyError k)"
| "exn_text fmt (AttributeError m) = m"
| "exn_text fmt (IndexError m) = m"
| "exn_text fmt (UnicodeDecodeError bs) = fmt (UnicodeDecodeError bs)"
| "exn_text fmt (Exception m) = m"
| "exn_text fmt SecretNotFoundError = fmt SecretNotFoundError"
| "exn_text fmt UnidentifiedImageError = fmt UnidentifiedImageError"

subsection \<open>Prompt composition (lines 122-133 and 150-154)\<close>

definition mode_general :: str where
  "mode_general = ascii ''Descripci'' @ [243] @ ascii ''n general''"

definition mode_artistic :: str where
  "mode_artistic = ascii ''An'' @ [225] @ ascii ''lisis art'' @ [237] @ ascii ''stico''"

definition mode_technical :: str where
  "mode_technical = ascii ''An'' @ [225] @ ascii ''lisis t'' @ [233] @ ascii ''cnico''"

definition mode_story :: str where
  "mode_story = ascii ''Historia creativa''"

text \<open>The options of the radio widget, in the order of the source.\<close>

definition mode_options :: "str list" where
  "mode_options = [mode_general, mode_artistic, mode_technical, mode_story]"

definition template_general :: str where
  "template_general =
     ascii ''Describe con detalle lo que se observa en la imagen: objetos, colores, iluminaci''
     @ [243] @ ascii ''n, contexto y emociones visuales.''"

definition template_artistic :: str where
  "template_artistic =
     ascii ''Analiza la composici'' @ [243]
     @ ascii ''n, uso de color, balance visual, estilo art'' @ [237]
     @ ascii ''stico y posibles influencias est'' @ [233] @ ascii ''ticas.''"

definition template_technical :: str where
  "template_technical =
     ascii ''Eval'' @ [250] @ ascii ''a calidad t'' @ [233] @ ascii ''cnica: foco, exposici''
     @ [243] @ ascii ''n, profundidad de campo, iluminaci'' @ [243]
     @ ascii ''n, texturas y realismo.''"

definition template_story :: str where
  "template_story =
     ascii ''Imagina una historia corta inspirada en la escena de la imagen. Escr'' @ [237]
     @ ascii ''bela con un tono po'' @ [233] @ ascii ''tico o narrativo.''"

text \<open>The dictionary \<^verbatim>\<open>prompt_map\<close>; its four keys are distinct.\<close>

definition prompt_map :: "str \<rightharpoonup> str" where
  "prompt_map = map_of
     [(mode_general, template_general),
      (mode_artistic, template_artistic),
      (mode_technical, template_technical),
      (mode_story, template_story)]"

definition lang_espanol :: str where
  "lang_espanol = ascii ''Espa'' @ [241] @ ascii ''ol''"

definition lang_ingles :: str where
  "lang_ingles = ascii ''Ingl'' @ [233] @ ascii ''s''"

definition directive_es :: str where
  "directive_es = ascii ''Responde en espa'' @ [241] @ ascii ''ol.''"

definition directive_en :: str where
  "directive_en = ascii ''Respond in English.''"

definition lang_suffix :: "str \<Rightarrow> str" where
  "lang_suffix lang = (if lang = lang_espanol then directive_es else directive_en)"

text \<open>Two line feeds: the separator the f-strings put between the parts.\<close>

definition blank_line :: str where
  "blank_line = [10, 10]"

definition context_label :: str where
  "context_label = ascii ''Contexto adicional del usuario:'' @ [10]"

text \<open>
  Lines 150-154. The subscript \<^verbatim>\<open>prompt_map[mode]\<close> raises \<open>KeyError\<close> on a key that is
  not in the dictionary; the context is added when it is truthy.
\<close>

definition full_prompt :: "str \<Rightarrow> str \<Rightarrow> str \<Rightarrow> exn + str" where
  "full_prompt mode lang user_context =
     (case prompt_map mode of
        None \<Rightarrow> Inl (KeyError mode)
      | Some base_prompt \<Rightarrow>
          let p = base_prompt @ blank_line @ lang_suffix lang
          in Inr (if truthy user_context
                  then p @ blank_line @ context_label @ user_context
                  else p))"

subsection \<open>Credential precedence (lines 84-90)\<close>

text \<open>
  \<^verbatim>\<open>str.isspace\<close> on one code point: the white space of the Unicode database, which is
  what \<^verbatim>\<open>str.strip()\<close> without argument removes from both ends.
\<close>

definition isspace :: "nat \<Rightarrow> bool" where
  "isspace c \<longleftrightarrow>
     (9 \<le> c \<and> c \<le> 13) \<or> (28 \<le> c \<and> c \<le> 32) \<or> c = 133 \<or> c = 160 \<or> c = 5760
     \<or> (8192 \<le> c \<and> c \<le> 8202) \<or> c = 8232 \<or> c = 8233 \<or> c = 8239 \<or> c = 8287
     \<or> c = 12288"

definition strip :: "str \<Rightarrow> str" where
  "strip s = rev (dropWhile isspace (rev (dropWhile isspace s)))"

definition OPENAI_API_KEY :: str where
  "OPENAI_API_KEY = ascii ''OPENAI_API_KEY''"

text \<open>
  \<^verbatim>\<open>st.secrets\<close> is the parsed secrets file, a dictionary of strings, or nothing when
  no secrets file exists. Lines 87-90: the membership test reads the file, so without a
  file it raises; with a file the value of the key is taken when the key is there, and
  \<^verbatim>\<open>None\<close> otherwise.
\<close>

definition secret_or_none :: "(str \<rightharpoonup> str) option \<Rightarrow> exn + str option" where
  "secret_or_none secrets =
     (case secrets of
        None \<Rightarrow> Inl SecretNotFoundError
      | Some store \<Rightarrow>
          if OPENAI_API_KEY \<in> dom store then Inr (store OPENAI_API_KEY)
          else Inr None)"

text \<open>
  Lines 84-90: the value stored in \<^verbatim>\<open>st.session_state.api_key\<close>, or the exception that
  stops the script; the lines are outside any \<^verbatim>\<open>try\<close>. The text field gives a string
  (empty when nothing was typed); \<open>None\<close> is covered as well, being falsy. The secrets
  are only read when the field is falsy.
\<close>

definition resolve_api_key :: "str option \<Rightarrow> (str \<rightharpoonup> str) option \<Rightarrow> exn + str option" where
  "resolve_api_key api_input secrets =
     (case api_input of
        Some s \<Rightarrow> if truthy s then Inr (Some (strip s)) else secret_or_none secrets
      | None \<Rightarrow> secret_or_none secrets)"

subsection \<open>Image encoder (lines 40-42)\<close>

text \<open>
  \<^verbatim>\<open>base64.b64encode\<close> of the standard library, as RFC 4648 defines it: every three
  octets give four characters of the alphabet, one sextet each; a last group of one or
  two octets is filled with zero bits and padded with \<^verbatim>\<open>=\<close>.
\<close>

definition b64_alphabet :: string where
  "b64_alphabet = ''ABCDEFGHIJKLMNOPQRSTUVWXYZabcdefghijklmnopqrstuvwxyz0123456789+/''"

definition b64_char :: "nat \<Rightarrow> byte" where
  "b64_char i = of_char (b64_alphabet ! i)"

definition b64_pad :: byte where
  "b64_pad = 61"

fun b64encode :: "bytes \<Rightarrow> bytes" where
  "b64encode [] = []"
| "b64encode [a] =
     [b64_char (unat a div 4), b64_char ((unat a mod 4) * 16), b64_pad, b64_pad]"
| "b64encode [a, b] =
     [b64_char (unat a div 4), b64_char ((unat a mod 4) * 16 + unat b div 16),
      b64_char ((unat b mod 16) * 4), b64_pad]"
| "b64encode (a # b # c # rest) =
     [b64_char (unat a div 4), b64_char ((unat a mod 4) * 16 + unat b div 16),
      b64_char ((unat b mod 16) * 4 + unat c div 64), b64_char (unat c mod 64)]
     @ b64encode rest"

text \<open>
  \<^verbatim>\<open>bytes.decode("utf-8")\<close> with strict error handling: shortest forms only, no
  surrogates, nothing above U+10FFFF. \<open>None\<close> is \<^verbatim>\<open>UnicodeDecodeError\<close>.
\<close>

definition continuation :: "byte \<Rightarrow> bool" where
  "continuation b \<longleftrightarrow> 0x80 \<le> b \<and> b \<le> 0xBF"

definition second_ok :: "byte \<Rightarrow> byte \<Rightarrow> bool" where
  "second_ok b0 b1 \<longleftrightarrow>
     (if b0 = 0xE0 then 0xA0 else if b0 = 0xF0 then 0x90 else 0x80) \<le> b1
     \<and> b1 \<le> (if b0 = 0xED then 0x9F else if b0 = 0xF4 then 0x8F else 0xBF)"

fun decode_utf8 :: "bytes \<Rightarrow> str option" where
  "decode_utf8 [] = Some []"
| "decode_utf8 (b0 # bs) =
     (if b0 < 0x80 then map_option ((#) (unat b0)) (decode_utf8 bs)
      else if 0xC2 \<le> b0 \<and> b0 \<le> 0xDF then
        (case bs of
           b1 # r \<Rightarrow>
             if continuation b1
             then map_option ((#) ((unat b0 - 0xC0) * 64 + (unat b1 - 0x80))) (decode_utf8 r)
             else None
         | _ \<Rightarrow> None)
      else if 0xE0 \<le> b0 \<and> b0 \<le> 0xEF then
        (case bs of
           b1 # b2 # r \<Rightarrow>
             if second_ok b0 b1 \<and> continuation b2
             then map_option
                    ((#) ((unat b0 - 0xE0) * 4096 + (unat b1 - 0x80) * 64 + (unat b2 - 0x80)))
                    (decode_utf8 r)
             else None
         | _ \<Rightarrow> None)
      else if 0xF0 \<le> b0 \<and> b0 \<le> 0xF4 then
        (case bs of
           b1 # b2 # b3 # r \<Rightarrow>
             if second_ok b0 b1 \<and> continuation b2 \<and> continuation b3
             then map_option
                    ((#) ((unat b0 - 0xF0) * 262144 + (unat b1 - 0x80) * 4096
                          + (unat b2 - 0x80) * 64 + (unat b3 - 0x80)))
                    (decode_utf8 r)
             else None
         | _ \<Rightarrow> None)
      else None)"

text \<open>
  The uploaded file: its name, its MIME type and its content. The uploader accepts the
  extensions jpg, jpeg, png and webp; \<^verbatim>\<open>getvalue()\<close> returns the content.
\<close>

record uploaded_file =
  file_name :: str
  file_type :: str
  file_bytes :: bytes

definition getvalue :: "uploaded_file \<Rightarrow> bytes" where
  "getvalue f = file_bytes f"

definition no_getvalue :: str where
  "no_getvalue = [39] @ ascii ''NoneType'' @ [39] @ ascii '' object has no attribute ''
     @ [39] @ ascii ''getvalue'' @ [39]"

text \<open>
  \<^verbatim>\<open>encode_image\<close>. The argument is a file object or \<^verbatim>\<open>None\<close> (nothing uploaded), on
  which the attribute access raises.
\<close>

definition encode_image :: "uploaded_file option \<Rightarrow> exn + str" where
  "encode_image file =
     (case file of
        None \<Rightarrow> Inl (AttributeError no_getvalue)
      | Some f \<Rightarrow>
          (case decode_utf8 (b64encode (getvalue f)) of
             None \<Rightarrow> Inl (UnicodeDecodeError (b64encode (getvalue f)))
           | Some s \<Rightarrow> Inr s))"

text \<open>
  The inverse transform, \<^verbatim>\<open>base64.b64decode\<close> on a string: the string has to be ASCII,
  every group of four characters gives three octets, and padding is accepted in the
  last group only. \<open>None\<close> is the error of the decoder.
\<close>

definition b64_index :: "nat \<Rightarrow> nat option" where
  "b64_index = map_of (zip (map of_char b64_alphabet) [0..<64])"

text \<open>The three octets of a group of four sextets.\<close>

definition octet0 :: "nat \<Rightarrow> nat \<Rightarrow> byte" where
  "octet0 s0 s1 = of_nat (s0 * 4 + s1 div 16)"

definition octet1 :: "nat \<Rightarrow> nat \<Rightarrow> byte" where
  "octet1 s1 s2 = of_nat ((s1 mod 16) * 16 + s2 div 4)"

definition octet2 :: "nat \<Rightarrow> nat \<Rightarrow> byte" where
  "octet2 s2 s3 = of_nat ((s2 mod 4) * 64 + s3)"

fun b64decode :: "str \<Rightarrow> bytes option" where
  "b64decode [] = Some []"
| "b64decode (c0 # c1 # c2 # c3 # rest) =
     (case (b64_index c0, b64_index c1) of
        (Some s0, Some s1) \<Rightarrow>
          if c2 = 61 \<and> c3 = 61 then
            (if rest = [] then Some [octet0 s0 s1] else None)
          else
            (case b64_index c2 of
               None \<Rightarrow> None
             | Some s2 \<Rightarrow>
                 if c3 = 61 then
                   (if rest = [] then Some [octet0 s0 s1, octet1 s1 s2] else None)
                 else
                   (case b64_index c3 of
                      None \<Rightarrow> None
                    | Some s3 \<Rightarrow>
                        map_option
                          (\<lambda>bs. octet0 s0 s1 # octet1 s1 s2 # octet2 s2 s3 # bs)
                          (b64decode rest)))
      | _ \<Rightarrow> None)"
| "b64decode _ = None"

subsection \<open>Streaming analyzer (lines 44-76)\<close>

text \<open>
  The keyword arguments and the message of the request are Python dictionaries, lists
  and scalars.
\<close>

datatype pyval =
    PStr str
  | PInt int
  | PBool bool
  | PList "pyval list"
  | PDict "(str \<times> pyval) list"

type_synonym kwargs = "(str \<times> pyval) list"

text \<open>
  What the script does to the outside, in order: calls on the page (the preview of the
  upload with its caption, warnings, spinner, results, errors), on the placeholder
  \<^verbatim>\<open>message_box\<close>, of \<^verbatim>\<open>encode_image\<close>, and the one network call
  \<^verbatim>\<open>client.chat.completions.create\<close>, with the key of the client and the keyword
  arguments.
\<close>

datatype action =
    St_image str
  | St_warning str
  | St_spinner str
  | Encode_image
  | St_empty
  | Create str kwargs
  | Box_markdown str
  | St_success str
  | St_markdown str
  | St_write str
  | St_error str

text \<open>An event of the stream: \<^verbatim>\<open>event.choices[0].delta.content\<close>.\<close>

record choice_delta =
  content :: "str option"

record choice =
  delta :: "choice_delta option"

record event =
  choices :: "choice list"

text \<open>
  The endpoint: for a key and the keyword arguments either an exception, or the events
  of the stream and how the stream ends, normally (\<open>None\<close>) or with an exception
  raised when the next event is awaited.
\<close>

type_synonym api = "str \<Rightarrow> kwargs \<Rightarrow> exn + (event list \<times> exn option)"

definition get_client :: "str option \<Rightarrow> str option" where
  "get_client api_key = (if truthy_opt api_key then api_key else None)"

definition messages :: "str \<Rightarrow> str \<Rightarrow> pyval" where
  "messages base64_img prompt =
     PList
       [PDict
          [(ascii ''role'', PStr (ascii ''user'')),
           (ascii ''content'',
            PList
              [PDict [(ascii ''type'', PStr (ascii ''text'')), (ascii ''text'', PStr prompt)],
               PDict
                 [(ascii ''type'', PStr (ascii ''image_url'')),
                  (ascii ''image_url'',
                   PDict
                     [(ascii ''url'',
                       PStr (ascii ''data:image/png;base64,'' @ base64_img))])]])]]"

definition create_kwargs :: "str \<Rightarrow> pyval \<Rightarrow> kwargs" where
  "create_kwargs model msgs =
     [(ascii ''model'', PStr model),
      (ascii ''messages'', msgs),
      (ascii ''max_tokens'', PInt 1200),
      (ascii ''stream'', PBool True)]"

definition marker :: str where
  "marker = [9612]"

definition index_out_of_range :: str where
  "index_out_of_range = ascii ''list index out of range''"

definition no_chat :: str where
  "no_chat = [39] @ ascii ''NoneType'' @ [39] @ ascii '' object has no attribute ''
     @ [39] @ ascii ''chat'' @ [39]"

text \<open>
  The loop of lines 70-74, from the text accumulated so far: the updates of the
  placeholder, and the accumulated text or the exception that ends the loop. An event
  without choices makes the subscript raise; the text is extended and shown only when
  the delta and its content are truthy.
\<close>

fun consume :: "str \<Rightarrow> event list \<Rightarrow> action list \<times> (exn + str)" where
  "consume full [] = ([], Inr full)"
| "consume full (ev # events) =
     (case choices ev of
        [] \<Rightarrow> ([], Inl (IndexError index_out_of_range))
      | ch # _ \<Rightarrow>
          (case delta ch of
             None \<Rightarrow> consume full events
           | Some d \<Rightarrow>
               (case content d of
                  None \<Rightarrow> consume full events
                | Some c \<Rightarrow>
                    if truthy c then
                      (case consume (full @ c) events of
                         (acts, r) \<Rightarrow> (Box_markdown (full @ c @ marker) # acts, r))
                    else consume full events)))"

text \<open>
  Lines 62-76 on an open stream: the loop from the empty text, then the exception of the
  stream if it ends with one, otherwise the last update without the marker and the
  return value.
\<close>

definition run_stream :: "event list \<Rightarrow> exn option \<Rightarrow> action list \<times> (exn + str)" where
  "run_stream events ending =
     (case consume [] events of
        (acts, Inl e) \<Rightarrow> (acts, Inl e)
      | (acts, Inr full) \<Rightarrow>
          (case ending of
             Some e \<Rightarrow> (acts, Inl e)
           | None \<Rightarrow> (acts @ [Box_markdown full], Inr full)))"

text \<open>
  \<^verbatim>\<open>analyze_image\<close>; the key is the one of the session state. Without a client the
  attribute access of line 64 raises, after the placeholder was created.
\<close>

definition analyze_image ::
  "api \<Rightarrow> str option \<Rightarrow> str \<Rightarrow> str \<Rightarrow> str \<Rightarrow> action list \<times> (exn + str)" where
  "analyze_image api api_key base64_img prompt model =
     (case get_client api_key of
        None \<Rightarrow> ([St_empty], Inl (AttributeError no_chat))
      | Some client \<Rightarrow>
          (let kw = create_kwargs model (messages base64_img prompt) in
           case api client kw of
             Inl e \<Rightarrow> ([St_empty, Create client kw], Inl e)
           | Inr (events, ending) \<Rightarrow>
               (case run_stream events ending of
                  (acts, r) \<Rightarrow> ([St_empty, Create client kw] @ acts, r))))"

text \<open>
  What is on the page says the placeholder: the text of its last update, or nothing
  before the first one.
\<close>

fun shown :: "action list \<Rightarrow> str option" where
  "shown [] = None"
| "shown (a # acts) =
     (case shown acts of
        Some t \<Rightarrow> Some t
      | None \<Rightarrow> (case a of Box_markdown t \<Rightarrow> Some t | _ \<Rightarrow> None))"

text \<open>A stream event that carries the text fragment \<open>f\<close>.\<close>

definition fragment_event :: "str \<Rightarrow> event" where
  "fragment_event f = \<lparr>choices = [\<lparr>delta = Some \<lparr>content = Some f\<rparr>\<rparr>]\<rparr>"

subsection \<open>Main block (lines 141-160)\<close>

text \<open>The values of the widgets in one run of the script.\<close>

record widgets =
  w_api_input :: "str option"
  w_model :: str
  w_lang :: str
  w_creativity :: real
  w_show_prompts :: bool
  w_uploaded :: "uploaded_file option"
  w_user_context :: str
  w_mode :: str
  w_analyze :: bool

definition warn_image :: str where
  "warn_image = [128206] @ ascii '' Por favor sube una imagen antes de analizar.''"

definition warn_key :: str where
  "warn_key = [128273] @ ascii '' Ingresa tu API key en la barra lateral.''"

definition spinner_text :: str where
  "spinner_text = ascii ''Analizando imagen con GPT-4o...''"

definition success_text :: str where
  "success_text = [9989] @ ascii '' An'' @ [225] @ ascii ''lisis completado''"

definition result_header :: str where
  "result_header = ascii ''### '' @ [129513] @ ascii '' Resultado''"

definition error_prefix :: str where
  "error_prefix = [10060] @ ascii '' Ocurri'' @ [243] @ ascii '' un error: ''"

text \<open>
  The body of the \<^verbatim>\<open>try\<close>, lines 148-158, up to the first exception: the actions and
  the exception, or the actions of a complete run.
\<close>

definition try_body :: "api \<Rightarrow> str option \<Rightarrow> widgets \<Rightarrow> action list \<times> exn option" where
  "try_body api api_key w =
     (case encode_image (w_uploaded w) of
        Inl e \<Rightarrow> ([St_spinner spinner_text, Encode_image], Some e)
      | Inr base64_img \<Rightarrow>
          (case full_prompt (w_mode w) (w_lang w) (w_user_context w) of
             Inl e \<Rightarrow> ([St_spinner spinner_text, Encode_image], Some e)
           | Inr prompt \<Rightarrow>
               (case analyze_image api api_key base64_img prompt (w_model w) of
                  (acts, Inl e) \<Rightarrow> ([St_spinner spinner_text, Encode_image] @ acts, Some e)
                | (acts, Inr result) \<Rightarrow>
                    ([St_spinner spinner_text, Encode_image] @ acts
                     @ [St_success success_text, St_markdown result_header, St_write result],
                     None))))"

text \<open>
  Lines 141-160, with the key of the session state: the two checks, then the \<^verbatim>\<open>try\<close>
  with its handler, which shows the text of the exception after the prefix.
\<close>

definition main_block :: "(exn \<Rightarrow> str) \<Rightarrow> api \<Rightarrow> str option \<Rightarrow> widgets \<Rightarrow> action list" where
  "main_block fmt api api_key w =
     (if w_analyze w then
        if w_uploaded w = None then [St_warning warn_image]
        else if \<not> truthy_opt api_key then [St_warning warn_key]
        else
          (case try_body api api_key w of
             (acts, Some e) \<Rightarrow> acts @ [St_error (error_prefix @ exn_text fmt e)]
           | (acts, None) \<Rightarrow> acts)
      else [])"

subsection \<open>The script from the sidebar to the main block (lines 84-160)\<close>

text \<open>
  Lines 113-115: the preview of an uploaded file. \<^verbatim>\<open>st.image\<close> decodes the bytes and
  raises when they are not a picture; which bytes are one is the parameter \<open>is_image\<close>.
  The lines are outside any \<^verbatim>\<open>try\<close>.
\<close>

definition preview :: "(bytes \<Rightarrow> bool) \<Rightarrow> uploaded_file option \<Rightarrow> exn + action list" where
  "preview is_image uploaded =
     (case uploaded of
        None \<Rightarrow> Inr []
      | Some f \<Rightarrow>
          if is_image (file_bytes f) then Inr [St_image (file_name f)]
          else Inl UnidentifiedImageError)"

text \<open>
  One run of the script: the key of the sidebar, the preview, the main block. An
  exception of the first two is not caught: the run stops there, with the actions done
  so far and the exception.
\<close>

definition script ::
  "(exn \<Rightarrow> str) \<Rightarrow> (bytes \<Rightarrow> bool) \<Rightarrow> api \<Rightarrow> (str \<rightharpoonup> str) option \<Rightarrow> widgets
   \<Rightarrow> action list \<times> exn option" where
  "script fmt is_image api secrets w =
     (case resolve_api_key (w_api_input w) secrets of
        Inl e \<Rightarrow> ([], Some e)
      | Inr api_key \<Rightarrow>
          (case preview is_image (w_uploaded w) of
             Inl e \<Rightarrow> ([], Some e)
           | Inr shown_preview \<Rightarrow> (shown_preview @ main_block fmt api api_key w, None)))"

section \<open>Properties\<close>

subsection \<open>The prompt dictionary\<close>

lemma mode_options_distinct: "distinct mode_options"
  by (simp add: mode_options_def mode_general_def mode_artistic_def mode_technical_def
      mode_story_def ascii_def)

lemma prompt_map_general: "prompt_map mode_general = Some template_general"
  by (simp add: prompt_map_def)

lemma prompt_map_artistic: "prompt_map mode_artistic = Some template_artistic"
  using mode_options_distinct by (auto simp: prompt_map_def mode_options_def)

lemma prompt_map_technical: "prompt_map mode_technical = Some template_technical"
  using mode_options_distinct by (auto simp: prompt_map_def mode_options_def)

lemma prompt_map_story: "prompt_map mode_story = Some template_story"
  using mode_options_distinct by (auto simp: prompt_map_def mode_options_def)

lemma dom_prompt_map: "dom prompt_map = set mode_options"
  by (auto simp: prompt_map_def mode_options_def dom_map_of_conv_image_fst)

lemma prompt_map_cases:
  assumes "mode \<in> set mode_options"
  obtains template where "prompt_map mode = Some template"
  using assms dom_prompt_map by blast

lemma full_prompt_Some:
  "prompt_map mode = Some template \<Longrightarrow>
   full_prompt mode lang ctx =
     Inr (template @ blank_line @ lang_suffix lang
          @ (if ctx = [] then [] else blank_line @ context_label @ ctx))"
  by (simp add: full_prompt_def truthy_def Let_def)

lemma full_prompt_None:
  "prompt_map mode = None \<Longrightarrow> full_prompt mode lang ctx = Inl (KeyError mode)"
  by (simp add: full_prompt_def)

text \<open>
  Claim C1. For each of the four modes, every language selection and every context, the
  composed prompt is the template the dictionary holds for the mode, a blank line, the
  directive of the language (the Spanish sentence for the Spanish selection, the English
  one otherwise), and, exactly when the context is not empty, a blank line, the label
  line and the context itself; nothing else.
\<close>

theorem full_prompt_composition:
  "mode \<in> set mode_options \<Longrightarrow>
   \<exists>template.
     prompt_map mode = Some template
     \<and> template \<in> {template_general, template_artistic, template_technical, template_story}
     \<and> lang_suffix lang = (if lang = lang_espanol then directive_es else directive_en)
     \<and> full_prompt mode lang ctx =
         Inr (template @ blank_line @ lang_suffix lang
              @ (if ctx = [] then [] else blank_line @ context_label @ ctx))"
proof -
  assume "mode \<in> set mode_options"
  then consider "mode = mode_general" | "mode = mode_artistic"
    | "mode = mode_technical" | "mode = mode_story"
    by (auto simp: mode_options_def)
  then show ?thesis
  proof cases
    case 1
    then show ?thesis
      using prompt_map_general full_prompt_Some [of mode template_general lang ctx]
      by (simp add: lang_suffix_def)
  next
    case 2
    then show ?thesis
      using prompt_map_artistic full_prompt_Some [of mode template_artistic lang ctx]
      by (simp add: lang_suffix_def)
  next
    case 3
    then show ?thesis
      using prompt_map_technical full_prompt_Some [of mode template_technical lang ctx]
      by (simp add: lang_suffix_def)
  next
    case 4
    then show ?thesis
      using prompt_map_story full_prompt_Some [of mode template_story lang ctx]
      by (simp add: lang_suffix_def)
  qed
qed

theorem full_prompt_composition_witness:
  "mode_general \<in> set mode_options
   \<and> full_prompt mode_general lang_espanol [] =
       Inr (template_general @ blank_line @ directive_es)
   \<and> full_prompt mode_general lang_ingles [33] =
       Inr (template_general @ blank_line @ directive_en @ blank_line @ context_label @ [33])"
proof -
  have m: "mode_general \<in> set mode_options"
    by (simp add: mode_options_def)
  have l: "lang_ingles \<noteq> lang_espanol"
    by (simp add: lang_ingles_def lang_espanol_def ascii_def)
  show ?thesis
    using m l full_prompt_composition [OF m, of lang_espanol "[]"]
      full_prompt_composition [OF m, of lang_ingles "[33]"] prompt_map_general
    by auto
qed

text \<open>
  Claim C9. The composition is a function defined on exactly the four modes of the radio
  widget: on each of them it returns a prompt, on any other mode the dictionary
  subscript raises \<open>KeyError\<close> with that mode. The widget only returns one of its
  options, so the error is not reachable from the form.
\<close>

theorem full_prompt_total_on_modes:
  "(mode \<in> set mode_options \<longrightarrow> (\<exists>p. full_prompt mode lang ctx = Inr p))
   \<and> (mode \<notin> set mode_options \<longrightarrow> full_prompt mode lang ctx = Inl (KeyError mode))
   \<and> length mode_options = 4 \<and> distinct mode_options"
proof -
  have "mode \<notin> set mode_options \<Longrightarrow> prompt_map mode = None"
    using dom_prompt_map by blast
  then have "mode \<notin> set mode_options \<Longrightarrow> full_prompt mode lang ctx = Inl (KeyError mode)"
    by (rule full_prompt_None)
  moreover have "mode \<in> set mode_options \<Longrightarrow> \<exists>p. full_prompt mode lang ctx = Inr p"
    by (erule prompt_map_cases) (simp add: full_prompt_Some)
  moreover have "length mode_options = 4"
    by (simp add: mode_options_def)
  ultimately show ?thesis
    using mode_options_distinct by blast
qed

theorem full_prompt_total_on_modes_witness:
  "mode_story \<in> set mode_options \<and> (\<exists>p. full_prompt mode_story lang_ingles [] = Inr p)
   \<and> ascii ''Resumen'' \<notin> set mode_options
   \<and> full_prompt (ascii ''Resumen'') lang_ingles [] = Inl (KeyError (ascii ''Resumen''))"
proof -
  have a: "mode_story \<in> set mode_options"
    by (simp add: mode_options_def)
  have b: "ascii ''Resumen'' \<notin> set mode_options"
    by (simp add: mode_options_def mode_general_def mode_artistic_def mode_technical_def
        mode_story_def ascii_def)
  show ?thesis
    using a b full_prompt_total_on_modes [of mode_story lang_ingles "[]"]
      full_prompt_total_on_modes [of "ascii ''Resumen''" lang_ingles "[]"]
    by blast
qed

subsection \<open>The credential\<close>

lemma rev_dropWhile_split:
  "xs = rev (dropWhile P (rev xs)) @ rev (takeWhile P (rev xs))"
proof -
  have "rev (dropWhile P (rev xs)) @ rev (takeWhile P (rev xs))
        = rev (takeWhile P (rev xs) @ dropWhile P (rev xs))"
    by (simp only: rev_append)
  also have "\<dots> = rev (rev xs)"
    by (simp only: takeWhile_dropWhile_id)
  finally show ?thesis
    by simp
qed

lemma dropWhile_strip:
  "dropWhile isspace s = strip s @ rev (takeWhile isspace (rev (dropWhile isspace s)))"
  unfolding strip_def by (rule rev_dropWhile_split)

lemma strip_decomp:
  "\<exists>l r. s = l @ strip s @ r \<and> (\<forall>c \<in> set l. isspace c) \<and> (\<forall>c \<in> set r. isspace c)"
proof -
  let ?r = "rev (takeWhile isspace (rev (dropWhile isspace s)))"
  have "s = takeWhile isspace s @ dropWhile isspace s"
    by simp
  then have "s = takeWhile isspace s @ strip s @ ?r"
    using dropWhile_strip [of s] by simp
  moreover have "\<forall>c \<in> set (takeWhile isspace s). isspace c"
    by (auto dest: set_takeWhileD)
  moreover have "\<forall>c \<in> set ?r. isspace c"
    by (auto dest: set_takeWhileD)
  ultimately show ?thesis
    by blast
qed

lemma strip_ends:
  assumes "strip s \<noteq> []"
  shows "\<not> isspace (hd (strip s))" and "\<not> isspace (last (strip s))"
proof -
  let ?t = "dropWhile isspace s"
  let ?u = "dropWhile isspace (rev ?t)"
  have u: "?u \<noteq> []"
    using assms by (simp add: strip_def)
  then have "\<not> isspace (hd ?u)"
    by (rule hd_dropWhile)
  moreover have "last (strip s) = hd ?u"
    using u by (simp add: strip_def last_rev)
  ultimately show "\<not> isspace (last (strip s))"
    by simp
  have t: "?t \<noteq> []"
  proof
    assume e: "?t = []"
    have "?u = []" unfolding e by simp
    with u show False ..
  qed
  then have "\<not> isspace (hd ?t)"
    by (rule hd_dropWhile)
  moreover have "hd ?t = hd (strip s)"
    using assms by (subst dropWhile_strip) simp
  ultimately show "\<not> isspace (hd (strip s))"
    by simp
qed

text \<open>
  What holds of lines 84-90. A non-empty user value wins and is returned stripped: the
  result is the user value without a leading and a trailing run of white space, and it
  neither starts nor ends with white space. With an empty (or absent) user value and a
  secrets file, the stored secret is returned when there is one and \<open>None\<close> when
  there is none.
\<close>

lemma resolve_api_key_cases:
  "(api_input = Some u \<and> u \<noteq> [] \<longrightarrow>
      resolve_api_key api_input secrets = Inr (Some (strip u))
      \<and> (\<exists>l r. u = l @ strip u @ r \<and> (\<forall>c \<in> set l. isspace c) \<and> (\<forall>c \<in> set r. isspace c))
      \<and> (strip u \<noteq> [] \<longrightarrow> \<not> isspace (hd (strip u)) \<and> \<not> isspace (last (strip u))))
   \<and> (\<not> truthy_opt api_input \<and> secrets = Some store \<longrightarrow>
      resolve_api_key api_input secrets = Inr (store OPENAI_API_KEY))
   \<and> (\<not> truthy_opt api_input \<and> secrets = None \<longrightarrow>
      resolve_api_key api_input secrets = Inl SecretNotFoundError)"
proof -
  have a: "resolve_api_key (Some u) secrets = Inr (Some (strip u))" if "u \<noteq> []"
    using that by (simp add: resolve_api_key_def truthy_def)
  have b: "resolve_api_key api_input secrets = secret_or_none secrets"
    if "\<not> truthy_opt api_input"
    using that by (auto simp: resolve_api_key_def truthy_opt_def split: option.splits)
  have c: "secret_or_none (Some store) = Inr (store OPENAI_API_KEY)"
    by (auto simp: secret_or_none_def domIff)
  have d: "secret_or_none None = Inl SecretNotFoundError"
    by (simp add: secret_or_none_def)
  show ?thesis
    using a b c d strip_decomp [of u] strip_ends [of u] by auto
qed

text \<open>
  Claim C3 says that with the user value and the fallback both empty or absent the
  resolver returns no credential. With an empty user value and no secrets file, which is
  an absent fallback, lines 84-90 return nothing: the membership test of line 87 raises.
\<close>

theorem resolve_api_key_no_secrets_file:
  "resolve_api_key (Some []) None = Inl SecretNotFoundError"
  by (simp add: resolve_api_key_def secret_or_none_def truthy_def)

subsection \<open>Base64\<close>

lemma unat_of_char_byte: "unat (of_char c :: byte) = of_char c"
proof -
  have "(of_char c :: nat) < 256" by simp
  then have "unat (of_nat (of_char c) :: byte) = of_char c"
    by (simp add: unat_of_nat)
  then show ?thesis by (simp add: of_nat_of_char)
qed

lemma b64_alphabet_length: "length b64_alphabet = 64"
  by (simp add: b64_alphabet_def)

lemma b64_alphabet_distinct: "distinct (map of_char b64_alphabet :: nat list)"
  by (simp add: b64_alphabet_def)

lemma b64_index_char: "i < 64 \<Longrightarrow> b64_index (unat (b64_char i)) = Some i"
proof -
  assume i: "i < 64"
  have "map_of (zip (map of_char b64_alphabet) [0..<64]) ((map of_char b64_alphabet :: nat list) ! i)
        = Some ([0..<64] ! i)"
    using i by (intro map_of_zip_nth b64_alphabet_distinct) (simp_all add: b64_alphabet_length)
  then show ?thesis
    using i by (simp add: b64_index_def b64_char_def unat_of_char_byte b64_alphabet_length)
qed

lemma b64_index_dom: "dom b64_index = of_char ` set b64_alphabet"
  unfolding b64_index_def
  by (subst dom_map_of_zip) (simp_all add: b64_alphabet_length)

lemma b64_index_pad: "b64_index 61 = None"
proof -
  have "(61::nat) \<notin> of_char ` set b64_alphabet"
    by (simp add: b64_alphabet_def)
  then show ?thesis
    using b64_index_dom by blast
qed

lemma b64_char_not_pad: "i < 64 \<Longrightarrow> unat (b64_char i) \<noteq> 61"
  using b64_index_char [of i] b64_index_pad by auto

lemma b64_char_ascii: "i < 64 \<Longrightarrow> b64_char i < 0x80"
proof -
  have "\<forall>c \<in> set b64_alphabet. (of_char c :: byte) < 0x80"
    by (simp add: b64_alphabet_def)
  moreover assume "i < 64"
  ultimately show ?thesis
    by (simp add: b64_char_def b64_alphabet_length)
qed

lemma unat_byte_less: "unat (a :: byte) < 256"
  using unsigned_less [of a] by simp

lemma sextets_less:
  "unat (a :: byte) div 4 < 64"
  "unat (a :: byte) mod 4 * 16 < 64"
  "unat (a :: byte) mod 4 * 16 + unat (b :: byte) div 16 < 64"
  "unat (b :: byte) mod 16 * 4 < 64"
  "unat (b :: byte) mod 16 * 4 + unat (c :: byte) div 64 < 64"
  "unat (c :: byte) mod 64 < 64"
  using unat_byte_less [of a] unat_byte_less [of b] unat_byte_less [of c] by arith+

lemma b64encode_ascii: "\<forall>x \<in> set (b64encode bs). x < 0x80"
  by (induction bs rule: b64encode.induct)
     (simp_all add: b64_char_ascii sextets_less b64_pad_def)

lemma decode_utf8_ascii:
  "\<forall>x \<in> set bs. x < 0x80 \<Longrightarrow> decode_utf8 bs = Some (map unat bs)"
  by (induction bs) simp_all


lemma regroup1: "(x::nat) div 4 * 4 + (x mod 4 * 16) div 16 = x"
  by simp

lemma regroup2: "(y::nat) < 256 \<Longrightarrow> x div 4 * 4 + (x mod 4 * 16 + y div 16) div 16 = x"
  by (simp add: div_mult2_eq [symmetric])

lemma regroup3:
  "(y::nat) < 256 \<Longrightarrow> (x mod 4 * 16 + y div 16) mod 16 * 16 + (y mod 16 * 4) div 4 = y"
  by simp

lemma regroup4:
  "(y::nat) < 256 \<Longrightarrow> z < 256 \<Longrightarrow>
   (x mod 4 * 16 + y div 16) mod 16 * 16 + (y mod 16 * 4 + z div 64) div 4 = y"
  by (simp add: div_mult2_eq [symmetric])

lemma regroup5: "(z::nat) < 256 \<Longrightarrow> (y mod 16 * 4 + z div 64) mod 4 * 64 + z mod 64 = z"
  by (simp add: mod_mult2_eq [symmetric] div_mult2_eq [symmetric])

lemma octets:
  fixes a b c :: byte
  shows "octet0 (unat a div 4) (unat a mod 4 * 16) = a"
    and "octet0 (unat a div 4) (unat a mod 4 * 16 + unat b div 16) = a"
    and "octet1 (unat a mod 4 * 16 + unat b div 16) (unat b mod 16 * 4) = b"
    and "octet1 (unat a mod 4 * 16 + unat b div 16) (unat b mod 16 * 4 + unat c div 64) = b"
    and "octet2 (unat b mod 16 * 4 + unat c div 64) (unat c mod 64) = c"
  unfolding octet0_def octet1_def octet2_def
  by (simp_all only: regroup1 regroup2 regroup3 regroup4 regroup5 unat_byte_less
      of_nat_unat ucast_id)

lemma b64decode_b64encode: "b64decode (map unat (b64encode bs)) = Some bs"
proof (induction bs rule: b64encode.induct)
  case 1
  show ?case by simp
next
  case (2 a)
  show ?case
    by (simp add: b64_index_char sextets_less b64_pad_def octets)
next
  case (3 a b)
  show ?case
    by (simp add: b64_index_char sextets_less b64_pad_def octets b64_char_not_pad)
next
  case (4 a b c rest)
  then show ?case
    by (simp add: b64_index_char sextets_less octets b64_char_not_pad)
qed

text \<open>The test vectors of RFC 4648, and a group with too little padding.\<close>

lemma b64encode_vectors:
  "map unat (b64encode [102]) = ascii ''Zg==''"
  "map unat (b64encode [102, 111]) = ascii ''Zm8=''"
  "map unat (b64encode [102, 111, 111, 98, 97, 114]) = ascii ''Zm9vYmFy''"
  by (simp_all add: b64_char_def b64_alphabet_def b64_pad_def ascii_def)

lemma b64decode_vectors:
  "b64decode (ascii ''Zg=='') = Some [102]"
  "b64decode (ascii ''Zm9vYmFy'') = Some [102, 111, 111, 98, 97, 114]"
  "b64decode (ascii ''Zg='') = None"
  by code_simp+

lemma encode_image_Some:
  "encode_image (Some f) = Inr (map unat (b64encode (getvalue f)))"
  by (simp add: encode_image_def decode_utf8_ascii b64encode_ascii)

text \<open>
  Claim C4. For every uploaded file the encoder returns a string, and decoding that
  string gives back the bytes of the file.
\<close>

theorem encode_image_round_trip:
  "\<exists>s. encode_image (Some f) = Inr s \<and> b64decode s = Some (getvalue f)"
  by (simp add: encode_image_Some b64decode_b64encode)

text \<open>
  Claim C8, as the code has it. The encoder raises exactly when it is given no file
  object; on a file it returns an encoding whatever the bytes are, and the encoding of
  the empty byte sequence is the empty string.
\<close>

theorem encode_image_fails_iff:
  "((\<exists>e. encode_image file = Inl e) \<longleftrightarrow> file = None)
   \<and> (\<exists>s. encode_image (Some f) = Inr s)
   \<and> encode_image (Some (f\<lparr>file_bytes := []\<rparr>)) = Inr []"
proof -
  have "(\<exists>e. encode_image file = Inl e) \<longleftrightarrow> file = None"
  proof (cases "file")
    case None
    then show ?thesis by (simp add: encode_image_def)
  next
    case (Some g)
    then show ?thesis by (simp add: encode_image_Some)
  qed
  moreover have "encode_image (Some (f\<lparr>file_bytes := []\<rparr>)) = Inr []"
    by (simp add: encode_image_Some getvalue_def)
  ultimately show ?thesis
    by (simp add: encode_image_Some)
qed

text \<open>
  Claim C8 as stated expects an error for the empty byte sequence. The encoder returns
  the empty string instead.
\<close>

theorem encode_image_empty_counterexample:
  "encode_image (Some \<lparr>file_name = ascii ''a.png'', file_type = ascii ''image/png'', file_bytes = []\<rparr>)
     = Inr []"
  by (simp add: encode_image_Some getvalue_def)

subsection \<open>The stream\<close>

lemma consume_fragment_Cons:
  "fst (consume full (fragment_event f # evs)) =
     (if f = [] then fst (consume full evs)
      else Box_markdown (full @ f @ marker) # fst (consume (full @ f) evs))"
  "snd (consume full (fragment_event f # evs)) =
     (if f = [] then snd (consume full evs) else snd (consume (full @ f) evs))"
  by (simp_all add: fragment_event_def truthy_def split_beta)

lemma consume_fragments_result:
  "snd (consume full (map fragment_event frags)) = Inr (full @ concat frags)"
  by (induction frags arbitrary: full)
     (simp_all add: consume_fragment_Cons del: consume.simps(2))

lemma consume_fragments_shown:
  "shown (fst (consume full (map fragment_event frags))) =
     (if concat frags = [] then None else Some (full @ concat frags @ marker))"
  by (induction frags arbitrary: full)
     (simp_all add: consume_fragment_Cons del: consume.simps(2))

lemma consume_fragments_snoc:
  "fst (consume full (map fragment_event (frags @ [f]))) =
     fst (consume full (map fragment_event frags))
     @ (if f = [] then [] else [Box_markdown (full @ concat frags @ f @ marker)])"
  by (induction frags arbitrary: full)
     (simp_all add: consume_fragment_Cons del: consume.simps(2))

lemma shown_append_box: "shown (acts @ [Box_markdown t]) = Some t"
  by (induction acts) simp_all

text \<open>
  Claim C2, as the code has it. For every sequence of fragments: after the fragments
  received so far the placeholder shows their concatenation followed by the marker, as
  soon as one of them was not empty, and nothing while all of them were empty; one more
  fragment adds exactly one update, the concatenation so far with the marker, unless it
  is empty, in which case it adds none. When the stream ends the placeholder shows the
  concatenation without the marker, which is also the value returned.
\<close>

theorem stream_display:
  "shown (fst (consume [] (map fragment_event frags))) =
     (if concat frags = [] then None else Some (concat frags @ marker))
   \<and> fst (consume [] (map fragment_event (frags @ [f]))) =
       fst (consume [] (map fragment_event frags))
       @ (if f = [] then [] else [Box_markdown (concat frags @ f @ marker)])
   \<and> run_stream (map fragment_event frags) None =
       (fst (consume [] (map fragment_event frags)) @ [Box_markdown (concat frags)],
        Inr (concat frags))
   \<and> shown (fst (run_stream (map fragment_event frags) None)) = Some (concat frags)"
proof -
  have r: "run_stream (map fragment_event frags) None =
       (fst (consume [] (map fragment_event frags)) @ [Box_markdown (concat frags)],
        Inr (concat frags))"
    using consume_fragments_result [of "[]" frags]
    by (cases "consume [] (map fragment_event frags)") (simp add: run_stream_def)
  show ?thesis
    using consume_fragments_shown [of "[]" frags] consume_fragments_snoc [of "[]" frags f]
    by (simp add: r shown_append_box)
qed

theorem stream_display_witness:
  "run_stream (map fragment_event [ascii ''Hola'', ascii '' mundo'']) None =
     ([Box_markdown (ascii ''Hola'' @ marker),
       Box_markdown (ascii ''Hola mundo'' @ marker),
       Box_markdown (ascii ''Hola mundo'')],
      Inr (ascii ''Hola mundo''))"
proof -
  have a: "ascii ''Hola'' \<noteq> []" "ascii '' mundo'' \<noteq> []"
    by (simp_all add: ascii_def)
  have c: "ascii ''Hola'' @ ascii '' mundo'' = ascii ''Hola mundo''"
    by (simp add: ascii_def)
  show ?thesis
    using a c stream_display [of "[ascii ''Hola'', ascii '' mundo'']" "[]"]
      stream_display [of "[ascii ''Hola'']" "ascii '' mundo''"]
      stream_display [of "[]" "ascii ''Hola''"]
    by simp
qed

text \<open>
  Claim C2 as stated expects the marker after every fragment. After a first fragment
  that is empty the placeholder shows nothing.
\<close>

theorem stream_display_counterexample:
  "shown (fst (consume [] (map fragment_event [[]]))) \<noteq> Some (concat [[]] @ marker)"
  by (simp add: fragment_event_def truthy_def)

subsection \<open>The main block\<close>

lemma consume_boxes:
  "a \<in> set (fst (consume full evs)) \<Longrightarrow> \<exists>t. a = Box_markdown (t @ marker)"
proof (induction evs arbitrary: full)
  case Nil
  then show ?case by simp
next
  case (Cons ev evs)
  then show ?case
    by (fastforce simp: split_beta split: list.splits option.splits if_splits)
qed

lemma run_stream_fst:
  "fst (run_stream events ending) =
     fst (consume [] events)
     @ (case snd (consume [] events) of
          Inl e \<Rightarrow> []
        | Inr full \<Rightarrow> (case ending of Some e \<Rightarrow> [] | None \<Rightarrow> [Box_markdown full]))"
  by (cases "consume [] events")
     (simp add: run_stream_def split: sum.splits option.splits)

lemma run_stream_boxes:
  "a \<in> set (fst (run_stream events ending)) \<Longrightarrow> \<exists>t. a = Box_markdown t"
  unfolding run_stream_fst
  by (auto split: sum.splits option.splits dest: consume_boxes)

lemma run_stream_failure:
  "snd (run_stream events ending) = Inl e \<Longrightarrow>
   fst (run_stream events ending) = fst (consume [] events)"
  by (cases "consume [] events")
     (auto simp: run_stream_def split: sum.splits option.splits)

lemma analyze_image_key:
  "key \<noteq> [] \<Longrightarrow>
   analyze_image api (Some key) b64 prompt model =
     (case api key (create_kwargs model (messages b64 prompt)) of
        Inl e \<Rightarrow> ([St_empty, Create key (create_kwargs model (messages b64 prompt))], Inl e)
      | Inr (events, ending) \<Rightarrow>
          ([St_empty, Create key (create_kwargs model (messages b64 prompt))]
           @ fst (run_stream events ending), snd (run_stream events ending)))"
  by (simp add: analyze_image_def get_client_def truthy_opt_def truthy_def Let_def split_beta
      split: sum.splits)

lemma analyze_image_creates:
  "Create k kw \<in> set (fst (analyze_image api api_key b64 prompt model)) \<Longrightarrow>
   api_key = Some k \<and> k \<noteq> [] \<and> kw = create_kwargs model (messages b64 prompt)"
  by (auto simp: analyze_image_def get_client_def truthy_opt_def truthy_def Let_def split_beta
      split: option.splits sum.splits if_splits dest: run_stream_boxes)

lemma try_body_creates:
  "Create k kw \<in> set (fst (try_body api api_key w)) \<Longrightarrow>
   \<exists>b64 prompt. encode_image (w_uploaded w) = Inr b64
     \<and> full_prompt (w_mode w) (w_lang w) (w_user_context w) = Inr prompt
     \<and> api_key = Some k \<and> k \<noteq> []
     \<and> kw = create_kwargs (w_model w) (messages b64 prompt)"
  by (auto simp: try_body_def split_beta split: sum.splits dest: analyze_image_creates)

lemma main_block_creates:
  "Create k kw \<in> set (main_block fmt api api_key w) \<Longrightarrow>
   \<exists>b64 prompt. encode_image (w_uploaded w) = Inr b64
     \<and> full_prompt (w_mode w) (w_lang w) (w_user_context w) = Inr prompt
     \<and> api_key = Some k \<and> k \<noteq> []
     \<and> kw = create_kwargs (w_model w) (messages b64 prompt)"
  by (auto simp: main_block_def split_beta
      split: if_splits option.splits dest: try_body_creates)

lemma main_block_run:
  assumes "w_analyze w" and "w_uploaded w = Some f"
    and "api_key = Some key" and "key \<noteq> []"
    and "full_prompt (w_mode w) (w_lang w) (w_user_context w) = Inr prompt"
    and "kw = create_kwargs (w_model w) (messages (map unat (b64encode (getvalue f))) prompt)"
  shows "main_block fmt api api_key w =
     [St_spinner spinner_text, Encode_image, St_empty, Create key kw]
     @ (case api key kw of
          Inl e \<Rightarrow> [St_error (error_prefix @ exn_text fmt e)]
        | Inr (events, ending) \<Rightarrow>
            fst (run_stream events ending)
            @ (case snd (run_stream events ending) of
                 Inl e \<Rightarrow> [St_error (error_prefix @ exn_text fmt e)]
               | Inr result \<Rightarrow>
                   [St_success success_text, St_markdown result_header, St_write result]))"
  using assms
  by (simp add: main_block_def try_body_def encode_image_Some analyze_image_key
      truthy_opt_def truthy_def split_beta split: sum.splits)

lemma api_failure_shape:
  assumes "w_analyze w" and "w_uploaded w = Some f"
    and "api_key = Some key" and "key \<noteq> []"
    and "full_prompt (w_mode w) (w_lang w) (w_user_context w) = Inr prompt"
    and "kw = create_kwargs (w_model w) (messages (map unat (b64encode (getvalue f))) prompt)"
    and "api key kw = Inl e
         \<or> (\<exists>events ending. api key kw = Inr (events, ending)
               \<and> snd (run_stream events ending) = Inl e)"
  shows "\<exists>acts.
           main_block fmt api api_key w =
             [St_spinner spinner_text, Encode_image, St_empty, Create key kw] @ acts
             @ [St_error (error_prefix @ exn_text fmt e)]
           \<and> (\<forall>a \<in> set acts. \<exists>t. a = Box_markdown (t @ marker))"
proof -
  note run = main_block_run [OF assms(1-6), of fmt api]
  from assms(7) show ?thesis
  proof
    assume "api key kw = Inl e"
    with run have "main_block fmt api api_key w =
        [St_spinner spinner_text, Encode_image, St_empty, Create key kw] @ []
        @ [St_error (error_prefix @ exn_text fmt e)]"
      by simp
    then show ?thesis
      by (intro exI [of _ "[]"]) simp
  next
    assume "\<exists>events ending. api key kw = Inr (events, ending)
              \<and> snd (run_stream events ending) = Inl e"
    then obtain events ending where r: "api key kw = Inr (events, ending)"
      and f: "snd (run_stream events ending) = Inl e"
      by blast
    from run r f have "main_block fmt api api_key w =
        [St_spinner spinner_text, Encode_image, St_empty, Create key kw]
        @ fst (consume [] events) @ [St_error (error_prefix @ exn_text fmt e)]"
      by (simp add: run_stream_failure)
    moreover have "\<forall>a \<in> set (fst (consume [] events)). \<exists>t. a = Box_markdown (t @ marker)"
      by (blast dest: consume_boxes)
    ultimately show ?thesis
      by blast
  qed
qed

text \<open>
  What holds of lines 141-145. When the button is pressed and no image is uploaded, or
  the key of the session state is \<open>None\<close> or empty, the main block consists of one
  warning and nothing else: no image is encoded and no request is made. The two checks
  come before the \<^verbatim>\<open>try\<close>, so before any request.
\<close>

lemma main_block_missing_input:
  assumes "w_analyze w"
    and "w_uploaded w = None \<or> \<not> truthy_opt api_key"
  shows "main_block fmt api api_key w =
           [St_warning (if w_uploaded w = None then warn_image else warn_key)]
         \<and> Encode_image \<notin> set (main_block fmt api api_key w)
         \<and> (\<forall>k kw. Create k kw \<notin> set (main_block fmt api api_key w))"
  using assms by (auto simp: main_block_def)

text \<open>
  A run of the script that does not stop before the main block is the preview followed
  by the main block with the resolved key; a run in which the key cannot be resolved
  does nothing at all.
\<close>

lemma script_reaches_main_block:
  "script fmt is_image api secrets w = (acts, None) \<longleftrightarrow>
     (\<exists>api_key shown_preview.
        resolve_api_key (w_api_input w) secrets = Inr api_key
        \<and> preview is_image (w_uploaded w) = Inr shown_preview
        \<and> acts = shown_preview @ main_block fmt api api_key w)"
  by (auto simp: script_def split: sum.splits)

lemma script_creates:
  "Create key kw \<in> set (fst (script fmt is_image api secrets w)) \<Longrightarrow>
   \<exists>api_key. resolve_api_key (w_api_input w) secrets = Inr api_key
     \<and> Create key kw \<in> set (main_block fmt api api_key w)"
  by (auto simp: script_def preview_def split: sum.splits option.splits if_splits)

lemma script_stops_at_secrets:
  "\<not> truthy_opt (w_api_input w) \<Longrightarrow>
   script fmt is_image api None w = ([], Some SecretNotFoundError)"
  by (auto simp: script_def resolve_api_key_def secret_or_none_def truthy_opt_def
      split: option.splits)

text \<open>
  Claim C5 says that a submission with no image uploaded, or with no credential
  available, is answered with a blocking warning. With the button pressed, no image, an
  empty key field and no secrets file, the run shows no warning: it stops at line 87
  with the exception of the secrets, before the checks of lines 142-145 are reached.
  Nothing is encoded and no request is made.
\<close>

theorem script_no_secrets_file:
  "script (\<lambda>e. []) (\<lambda>b. True) (\<lambda>k kw. Inl (Exception [])) None
     \<lparr>w_api_input = Some [], w_model = ascii ''gpt-4o'', w_lang = lang_espanol,
      w_creativity = 0.4, w_show_prompts = False, w_uploaded = None,
      w_user_context = [], w_mode = mode_general, w_analyze = True\<rparr>
   = ([], Some SecretNotFoundError)"
  by (simp add: script_def resolve_api_key_def secret_or_none_def truthy_def)

text \<open>
  Claim C6. When the network call raises an exception, or the consumption of the stream
  does, the run ends with one error message made of the fixed prefix and the text of the
  exception. Between the request and the message there are only updates of the
  placeholder that carry the marker; the request is made once; there is no success
  message and no result is written.
\<close>

theorem api_failure_reported:
  assumes "w_analyze w" and "w_uploaded w = Some f"
    and "api_key = Some key" and "key \<noteq> []"
    and "full_prompt (w_mode w) (w_lang w) (w_user_context w) = Inr prompt"
    and "kw = create_kwargs (w_model w) (messages (map unat (b64encode (getvalue f))) prompt)"
    and "api key kw = Inl e
         \<or> (\<exists>events ending. api key kw = Inr (events, ending)
               \<and> snd (run_stream events ending) = Inl e)"
  shows "(\<exists>acts.
            main_block fmt api api_key w =
              [St_spinner spinner_text, Encode_image, St_empty, Create key kw] @ acts
              @ [St_error (error_prefix @ exn_text fmt e)]
            \<and> (\<forall>a \<in> set acts. \<exists>t. a = Box_markdown (t @ marker)))
         \<and> filter (\<lambda>a. \<exists>k q. a = Create k q) (main_block fmt api api_key w)
             = [Create key kw]
         \<and> (\<forall>t. St_success t \<notin> set (main_block fmt api api_key w))
         \<and> (\<forall>r. St_write r \<notin> set (main_block fmt api api_key w))"
proof -
  obtain acts where t: "main_block fmt api api_key w =
      [St_spinner spinner_text, Encode_image, St_empty, Create key kw] @ acts
      @ [St_error (error_prefix @ exn_text fmt e)]"
    and b: "\<forall>a \<in> set acts. \<exists>t. a = Box_markdown (t @ marker)"
    using api_failure_shape [where api = api and fmt = fmt, OF assms] by blast
  from b have "filter (\<lambda>a. \<exists>k q. a = Create k q) acts = []"
    by (auto simp: filter_empty_conv)
  with t b show ?thesis
    by auto
qed

theorem api_failure_reported_witness:
  "(\<exists>acts.
      main_block (\<lambda>e. []) (\<lambda>k kw. Inl (Exception (ascii ''Incorrect API key provided''))) (Some (ascii ''sk-test''))
        \<lparr>w_api_input = Some (ascii ''sk-test''), w_model = ascii ''gpt-4o'', w_lang = lang_espanol,
        w_creativity = 0.4, w_show_prompts = False,
        w_uploaded = Some \<lparr>file_name = ascii ''foto.jpg'', file_type = ascii ''image/jpeg'', file_bytes = [255, 216, 255]\<rparr>,
        w_user_context = [], w_mode = mode_general, w_analyze = True\<rparr>
      = [St_spinner spinner_text, Encode_image, St_empty,
         Create (ascii ''sk-test'') (create_kwargs (ascii ''gpt-4o'')
        (messages (map unat (b64encode [255, 216, 255]))
           (template_general @ blank_line @ directive_es)))]
        @ acts @ [St_error (error_prefix @ ascii ''Incorrect API key provided'')]
      \<and> (\<forall>a \<in> set acts. \<exists>t. a = Box_markdown (t @ marker)))
   \<and> (\<exists>acts.
      main_block (\<lambda>e. []) (\<lambda>k kw. Inr ([fragment_event (ascii ''Hola'')], Some (Exception (ascii ''Connection error.'')))) (Some (ascii ''sk-test''))
        \<lparr>w_api_input = Some (ascii ''sk-test''), w_model = ascii ''gpt-4o'', w_lang = lang_espanol,
        w_creativity = 0.4, w_show_prompts = False,
        w_uploaded = Some \<lparr>file_name = ascii ''foto.jpg'', file_type = ascii ''image/jpeg'', file_bytes = [255, 216, 255]\<rparr>,
        w_user_context = [], w_mode = mode_general, w_analyze = True\<rparr>
      = [St_spinner spinner_text, Encode_image, St_empty,
         Create (ascii ''sk-test'') (create_kwargs (ascii ''gpt-4o'')
        (messages (map unat (b64encode [255, 216, 255]))
           (template_general @ blank_line @ directive_es)))]
        @ acts @ [St_error (error_prefix @ ascii ''Connection error.'')]
      \<and> (\<forall>a \<in> set acts. \<exists>t. a = Box_markdown (t @ marker)))"
proof -
  have p: "full_prompt mode_general lang_espanol [] = Inr (template_general @ blank_line @ directive_es)"
    by (simp add: full_prompt_Some prompt_map_general lang_suffix_def)
  have n: "ascii ''sk-test'' \<noteq> []"
    by (simp add: ascii_def)
  have d: "snd (run_stream [fragment_event (ascii ''Hola'')] (Some (Exception (ascii ''Connection error.''))))
           = Inl (Exception (ascii ''Connection error.''))"
    by (simp add: run_stream_def fragment_event_def split_beta)
  show ?thesis
    using
      api_failure_reported [of "\<lparr>w_api_input = Some (ascii ''sk-test''), w_model = ascii ''gpt-4o'', w_lang = lang_espanol,
        w_creativity = 0.4, w_show_prompts = False,
        w_uploaded = Some \<lparr>file_name = ascii ''foto.jpg'', file_type = ascii ''image/jpeg'', file_bytes = [255, 216, 255]\<rparr>,
        w_user_context = [], w_mode = mode_general, w_analyze = True\<rparr>" "\<lparr>file_name = ascii ''foto.jpg'', file_type = ascii ''image/jpeg'', file_bytes = [255, 216, 255]\<rparr>" "Some (ascii ''sk-test'')" "ascii ''sk-test''"
        "template_general @ blank_line @ directive_es" "(create_kwargs (ascii ''gpt-4o'')
        (messages (map unat (b64encode [255, 216, 255]))
           (template_general @ blank_line @ directive_es)))"
        "(\<lambda>k kw. Inl (Exception (ascii ''Incorrect API key provided'')))" "Exception (ascii ''Incorrect API key provided'')" "(\<lambda>e. [])"]
      api_failure_reported [of "\<lparr>w_api_input = Some (ascii ''sk-test''), w_model = ascii ''gpt-4o'', w_lang = lang_espanol,
        w_creativity = 0.4, w_show_prompts = False,
        w_uploaded = Some \<lparr>file_name = ascii ''foto.jpg'', file_type = ascii ''image/jpeg'', file_bytes = [255, 216, 255]\<rparr>,
        w_user_context = [], w_mode = mode_general, w_analyze = True\<rparr>" "\<lparr>file_name = ascii ''foto.jpg'', file_type = ascii ''image/jpeg'', file_bytes = [255, 216, 255]\<rparr>" "Some (ascii ''sk-test'')" "ascii ''sk-test''"
        "template_general @ blank_line @ directive_es" "(create_kwargs (ascii ''gpt-4o'')
        (messages (map unat (b64encode [255, 216, 255]))
           (template_general @ blank_line @ directive_es)))"
        "(\<lambda>k kw. Inr ([fragment_event (ascii ''Hola'')], Some (Exception (ascii ''Connection error.''))))" "Exception (ascii ''Connection error.'')" "(\<lambda>e. [])"]
      p n d
    by (simp add: getvalue_def)
qed

text \<open>
  Claim C7. Every request of a run carries the selected model, one user message with the
  composed prompt and the image as a data URL, \<^verbatim>\<open>max_tokens\<close> 1200 and \<^verbatim>\<open>stream\<close> true,
  and nothing else: there is no temperature among the keyword arguments, and the run
  does not depend on the value of the slider.
\<close>

theorem request_contents:
  "(Create key kw \<in> set (main_block fmt api api_key w) \<longrightarrow>
      (\<exists>prompt b64.
         kw = [(ascii ''model'', PStr (w_model w)),
               (ascii ''messages'',
                PList
                  [PDict
                     [(ascii ''role'', PStr (ascii ''user'')),
                      (ascii ''content'',
                       PList
                         [PDict [(ascii ''type'', PStr (ascii ''text'')),
                                 (ascii ''text'', PStr prompt)],
                          PDict [(ascii ''type'', PStr (ascii ''image_url'')),
                                 (ascii ''image_url'',
                                  PDict [(ascii ''url'',
                                          PStr (ascii ''data:image/png;base64,'' @ b64))])]])]]),
               (ascii ''max_tokens'', PInt 1200),
               (ascii ''stream'', PBool True)]
         \<and> full_prompt (w_mode w) (w_lang w) (w_user_context w) = Inr prompt
         \<and> encode_image (w_uploaded w) = Inr b64)
      \<and> map_of kw (ascii ''temperature'') = None)
   \<and> main_block fmt api api_key (w\<lparr>w_creativity := c\<rparr>) = main_block fmt api api_key w"
proof -
  have "try_body api k (w\<lparr>w_creativity := c\<rparr>) = try_body api k w" for k
    by (simp add: try_body_def cong: sum.case_cong)
  then have "main_block fmt api api_key (w\<lparr>w_creativity := c\<rparr>) = main_block fmt api api_key w"
    by (simp add: main_block_def Let_def)
  moreover have "map_of (create_kwargs m msgs) (ascii ''temperature'') = None" for m msgs
    by (simp add: create_kwargs_def ascii_def)
  ultimately show ?thesis
    by (auto dest!: main_block_creates simp: create_kwargs_def messages_def)
qed

theorem request_contents_witness:
  "Create (ascii ''sk-test'') (create_kwargs (ascii ''gpt-4o'')
        (messages (map unat (b64encode [255, 216, 255]))
           (template_general @ blank_line @ directive_es)))
     \<in> set (main_block (\<lambda>e. []) (\<lambda>k kw. Inr ([fragment_event (ascii ''Hola'')], None)) (Some (ascii ''sk-test''))
        \<lparr>w_api_input = Some (ascii ''sk-test''), w_model = ascii ''gpt-4o'', w_lang = lang_espanol,
        w_creativity = 0.4, w_show_prompts = False,
        w_uploaded = Some \<lparr>file_name = ascii ''foto.jpg'', file_type = ascii ''image/jpeg'', file_bytes = [255, 216, 255]\<rparr>,
        w_user_context = [], w_mode = mode_general, w_analyze = True\<rparr>)
   \<and> map_of (create_kwargs (ascii ''gpt-4o'')
        (messages (map unat (b64encode [255, 216, 255]))
           (template_general @ blank_line @ directive_es))) (ascii ''max_tokens'') = Some (PInt 1200)
   \<and> map_of (create_kwargs (ascii ''gpt-4o'')
        (messages (map unat (b64encode [255, 216, 255]))
           (template_general @ blank_line @ directive_es))) (ascii ''temperature'') = None
   \<and> main_block (\<lambda>e. []) (\<lambda>k kw. Inr ([fragment_event (ascii ''Hola'')], None)) (Some (ascii ''sk-test''))
        \<lparr>w_api_input = Some (ascii ''sk-test''), w_model = ascii ''gpt-4o'', w_lang = lang_espanol,
        w_creativity = 1.2, w_show_prompts = False,
        w_uploaded = Some \<lparr>file_name = ascii ''foto.jpg'', file_type = ascii ''image/jpeg'', file_bytes = [255, 216, 255]\<rparr>,
        w_user_context = [], w_mode = mode_general, w_analyze = True\<rparr>
     = main_block (\<lambda>e. []) (\<lambda>k kw. Inr ([fragment_event (ascii ''Hola'')], None)) (Some (ascii ''sk-test''))
        \<lparr>w_api_input = Some (ascii ''sk-test''), w_model = ascii ''gpt-4o'', w_lang = lang_espanol,
        w_creativity = 0.4, w_show_prompts = False,
        w_uploaded = Some \<lparr>file_name = ascii ''foto.jpg'', file_type = ascii ''image/jpeg'', file_bytes = [255, 216, 255]\<rparr>,
        w_user_context = [], w_mode = mode_general, w_analyze = True\<rparr>"
proof -
  have p: "full_prompt mode_general lang_espanol [] = Inr (template_general @ blank_line @ directive_es)"
    by (simp add: full_prompt_Some prompt_map_general lang_suffix_def)
  have n: "ascii ''sk-test'' \<noteq> []"
    by (simp add: ascii_def)
  have m: "Create (ascii ''sk-test'') (create_kwargs (ascii ''gpt-4o'')
        (messages (map unat (b64encode [255, 216, 255]))
           (template_general @ blank_line @ directive_es)))
     \<in> set (main_block (\<lambda>e. []) (\<lambda>k kw. Inr ([fragment_event (ascii ''Hola'')], None)) (Some (ascii ''sk-test''))
        \<lparr>w_api_input = Some (ascii ''sk-test''), w_model = ascii ''gpt-4o'', w_lang = lang_espanol,
        w_creativity = 0.4, w_show_prompts = False,
        w_uploaded = Some \<lparr>file_name = ascii ''foto.jpg'', file_type = ascii ''image/jpeg'', file_bytes = [255, 216, 255]\<rparr>,
        w_user_context = [], w_mode = mode_general, w_analyze = True\<rparr>)"
    using p n
    by (subst main_block_run [where f = "\<lparr>file_name = ascii ''foto.jpg'', file_type = ascii ''image/jpeg'', file_bytes = [255, 216, 255]\<rparr>" and key = "ascii ''sk-test''"
          and prompt = "template_general @ blank_line @ directive_es" and kw = "(create_kwargs (ascii ''gpt-4o'')
        (messages (map unat (b64encode [255, 216, 255]))
           (template_general @ blank_line @ directive_es)))"])
       (simp_all add: getvalue_def)
  have t: "map_of (create_kwargs (ascii ''gpt-4o'')
        (messages (map unat (b64encode [255, 216, 255]))
           (template_general @ blank_line @ directive_es))) (ascii ''max_tokens'') = Some (PInt 1200)"
    by (simp add: create_kwargs_def ascii_def)
  show ?thesis
    using m t
      request_contents [of "ascii ''sk-test''" "(create_kwargs (ascii ''gpt-4o'')
        (messages (map unat (b64encode [255, 216, 255]))
           (template_general @ blank_line @ directive_es)))" "(\<lambda>e. [])" "(\<lambda>k kw. Inr ([fragment_event (ascii ''Hola'')], None))" "Some (ascii ''sk-test'')"
        "\<lparr>w_api_input = Some (ascii ''sk-test''), w_model = ascii ''gpt-4o'', w_lang = lang_espanol,
        w_creativity = 0.4, w_show_prompts = False,
        w_uploaded = Some \<lparr>file_name = ascii ''foto.jpg'', file_type = ascii ''image/jpeg'', file_bytes = [255, 216, 255]\<rparr>,
        w_user_context = [], w_mode = mode_general, w_analyze = True\<rparr>" "1.2"]
    by simp
qed

text \<open>
  Claim C10. In every request the URL of the image is the prefix
  \<^verbatim>\<open>data:image/png;base64,\<close> followed by the Base64 text of the uploaded bytes,
  whatever the name and the type of the uploaded file.
\<close>

theorem image_reference_png:
  "Create key kw \<in> set (main_block fmt api api_key w) \<Longrightarrow>
   \<exists>f prompt.
     w_uploaded w = Some f
     \<and> map_of kw (ascii ''messages'') =
         Some (PList
                 [PDict
                    [(ascii ''role'', PStr (ascii ''user'')),
                     (ascii ''content'',
                      PList
                        [PDict [(ascii ''type'', PStr (ascii ''text'')),
                                (ascii ''text'', PStr prompt)],
                         PDict [(ascii ''type'', PStr (ascii ''image_url'')),
                                (ascii ''image_url'',
                                 PDict [(ascii ''url'',
                                         PStr (ascii ''data:image/png;base64,''
                                               @ map unat (b64encode (file_bytes f))))])]])]])"
proof -
  assume "Create key kw \<in> set (main_block fmt api api_key w)"
  then obtain b64 prompt where e: "encode_image (w_uploaded w) = Inr b64"
    and kw: "kw = create_kwargs (w_model w) (messages b64 prompt)"
    by (blast dest: main_block_creates)
  from e obtain f where f: "w_uploaded w = Some f"
    by (cases "w_uploaded w") (simp_all add: encode_image_def)
  with e have "b64 = map unat (b64encode (file_bytes f))"
    by (simp add: encode_image_Some getvalue_def)
  moreover have "ascii ''messages'' \<noteq> ascii ''model''"
    by (simp add: ascii_def)
  ultimately show ?thesis
    using f kw by (simp add: create_kwargs_def messages_def)
qed

theorem image_reference_png_witness:
  "Create (ascii ''sk-test'') (create_kwargs (ascii ''gpt-4o'')
        (messages (map unat (b64encode [255, 216, 255]))
           (template_general @ blank_line @ directive_es)))
     \<in> set (main_block (\<lambda>e. []) (\<lambda>k kw. Inr ([fragment_event (ascii ''Hola'')], None)) (Some (ascii ''sk-test''))
        \<lparr>w_api_input = Some (ascii ''sk-test''), w_model = ascii ''gpt-4o'', w_lang = lang_espanol,
        w_creativity = 0.4, w_show_prompts = False,
        w_uploaded = Some \<lparr>file_name = ascii ''foto.jpg'', file_type = ascii ''image/jpeg'', file_bytes = [255, 216, 255]\<rparr>,
        w_user_context = [], w_mode = mode_general, w_analyze = True\<rparr>)
   \<and> (\<exists>prompt.
        map_of (create_kwargs (ascii ''gpt-4o'')
        (messages (map unat (b64encode [255, 216, 255]))
           (template_general @ blank_line @ directive_es))) (ascii ''messages'') =
          Some (PList
                  [PDict
                     [(ascii ''role'', PStr (ascii ''user'')),
                      (ascii ''content'',
                       PList
                         [PDict [(ascii ''type'', PStr (ascii ''text'')),
                                 (ascii ''text'', PStr prompt)],
                          PDict [(ascii ''type'', PStr (ascii ''image_url'')),
                                 (ascii ''image_url'',
                                  PDict [(ascii ''url'',
                                          PStr (ascii ''data:image/png;base64,''
                                                @ map unat (b64encode [255, 216, 255])))])]])]]))"
proof -
  have p: "full_prompt mode_general lang_espanol [] = Inr (template_general @ blank_line @ directive_es)"
    by (simp add: full_prompt_Some prompt_map_general lang_suffix_def)
  have n: "ascii ''sk-test'' \<noteq> []"
    by (simp add: ascii_def)
  have m: "Create (ascii ''sk-test'') (create_kwargs (ascii ''gpt-4o'')
        (messages (map unat (b64encode [255, 216, 255]))
           (template_general @ blank_line @ directive_es)))
     \<in> set (main_block (\<lambda>e. []) (\<lambda>k kw. Inr ([fragment_event (ascii ''Hola'')], None)) (Some (ascii ''sk-test''))
        \<lparr>w_api_input = Some (ascii ''sk-test''), w_model = ascii ''gpt-4o'', w_lang = lang_espanol,
        w_creativity = 0.4, w_show_prompts = False,
        w_uploaded = Some \<lparr>file_name = ascii ''foto.jpg'', file_type = ascii ''image/jpeg'', file_bytes = [255, 216, 255]\<rparr>,
        w_user_context = [], w_mode = mode_general, w_analyze = True\<rparr>)"
    using p n
    by (subst main_block_run [where f = "\<lparr>file_name = ascii ''foto.jpg'', file_type = ascii ''image/jpeg'', file_bytes = [255, 216, 255]\<rparr>" and key = "ascii ''sk-test''"
          and prompt = "template_general @ blank_line @ directive_es" and kw = "(create_kwargs (ascii ''gpt-4o'')
        (messages (map unat (b64encode [255, 216, 255]))
           (template_general @ blank_line @ directive_es)))"])
       (simp_all add: getvalue_def)
  show ?thesis
    using m image_reference_png [OF m]
    by simp
qed

end
